theory Spec2Isabelle
  imports Main
begin

section \<open>Data model\<close>

text \<open>
  The soul-learning-app is written against the packages @opensouls/core and
  @opensouls/engine (\<^verbatim>\<open>file:../packages/core\<close>, \<^verbatim>\<open>file:../packages/engine\<close>), whose
  sources are not part of the files modelled here. What the application files themselves
  define is translated from them; what they only import is either a parameter of the
  model or a definition marked as modelled from the specification.

  JavaScript strings are modelled as \<^typ>\<open>string\<close>, a character being one of the 256
  of \<^typ>\<open>char\<close> (the code units 0 to 255); a JSON-compatible value is a
  \<^emph>\<open>json\<close>, an object literal an association list in the order it is written.
  Numbers that occur in the modelled code are counters, hence \<^typ>\<open>int\<close>.

  Definitions carry the names of the source. Where two record types of the source have a
  field of the same name, or a name is reserved, the name is prefixed or suffixed: the
  fields of the option objects are \<open>im_\<close>, \<open>ed_\<close> and \<open>dc_\<close> followed by the source's name
  (internalMonologue, externalDialog, decision); \<open>runnerSoulName\<close> is the runner's
  \<^verbatim>\<open>soulName\<close> and \<open>engineSoulMemory\<close> the store behind \<^verbatim>\<open>useSoulMemory\<close>; \<open>store_get\<close> and
  \<open>store_set\<close> are \<^verbatim>\<open>get\<close> and \<^verbatim>\<open>set\<close> of \<^verbatim>\<open>getSoulMemoryInterface\<close>, \<open>set_key\<close> the
  \<^verbatim>\<open>set\<close> of \<^verbatim>\<open>useSoulMemory\<close>, and \<open>includes_str\<close> is \<^verbatim>\<open>String.prototype.includes\<close>.
\<close>

datatype json =
    JNull
  | JBool bool
  | JNum int
  | JStr string
  | JArr "json list"
  | JObj "(string \<times> json) list"

text \<open>\<^verbatim>\<open>ChatMessageRoleEnum\<close> of @opensouls/core: the three roles the application uses.\<close>

datatype ChatMessageRoleEnum = System | User | Assistant

text \<open>
  A memory is the object literal \<^verbatim>\<open>{ role, content, metadata? }\<close> the application builds.
\<close>

record Memory =
  role :: ChatMessageRoleEnum
  content :: string
  metadata :: "(string \<times> json) list option"

text \<open>The two plain memories that the examples use.\<close>

definition systemMemory :: "string \<Rightarrow> Memory" where
  "systemMemory text = \<lparr>role = System, content = text, metadata = None\<rparr>"

definition userMemory :: "string \<Rightarrow> Memory" where
  "userMemory text = \<lparr>role = User, content = text, metadata = None\<rparr>"

text \<open>
  A \<^verbatim>\<open>WorkingMemory\<close> as the application sees it: the constructor arguments
  \<^verbatim>\<open>soulName\<close> and \<^verbatim>\<open>memories\<close>, and the own property \<^verbatim>\<open>entityName\<close> that
  \<^verbatim>\<open>LocalSoulRunner\<close> attaches with \<^verbatim>\<open>Object.defineProperty\<close>
  (\<open>None\<close>: the object has no such own property).
\<close>

record WorkingMemory =
  soulName :: string
  memories :: "Memory list"
  entityName :: "string option"

text \<open>
  The errors of the specification's taxonomy (section 7), JavaScript's own
  \<^verbatim>\<open>TypeError\<close> (a call of something that is not a function, the destructuring of
  something that is not iterable) and \<^verbatim>\<open>SyntaxError\<close> (a text that is no regular
  expression), and a failed file-system call.
\<close>

datatype error =
  ValidationError | ProcessorError | ReentrancyError | TypeError | SyntaxError | IOError

text \<open>
  A file that holds the JSON text of an object, as far as the application is concerned:
  missing, not parseable, or holding the entries of the object.
\<close>

datatype 'v File = Absent | Corrupt | Holds "string \<rightharpoonup> 'v"

text \<open>
  A call of a cognitive step, seen from its caller: the working memory, the options
  object and the state of the world outside (\<open>'w\<close>: whatever decides the language
  model's next response) give an error or a result, and the next state of that world.
\<close>

type_synonym ('w, 'a) cognitiveStep =
  "WorkingMemory \<Rightarrow> json \<Rightarrow> 'w \<Rightarrow> (error + 'a) \<times> 'w"

text \<open>JavaScript's truthiness of a JSON value, and the decimal text of an integer.\<close>

fun truthy :: "json \<Rightarrow> bool" where
  "truthy JNull = False"
| "truthy (JBool b) = b"
| "truthy (JNum n) = (n \<noteq> 0)"
| "truthy (JStr text) = (text \<noteq> [])"
| "truthy (JArr _) = True"
| "truthy (JObj _) = True"

fun digits :: "nat \<Rightarrow> string" where
  "digits n =
     (if n < 10 then [char_of (48 + n)]
      else digits (n div 10) @ [char_of (48 + n mod 10)])"

definition toString :: "int \<Rightarrow> string" where
  "toString i = (if i < 0 then ''-'' @ digits (nat (- i)) else digits (nat i))"

text \<open>ASCII lower case, for \<^verbatim>\<open>toLowerCase\<close> and for matching without regard to case.\<close>

definition toLowerCase :: "char \<Rightarrow> char" where
  "toLowerCase c =
     (if (65::nat) \<le> of_char c \<and> of_char c \<le> (90::nat)
      then char_of (of_char c + (32::nat)) else c)"

text \<open>
  JavaScript's coercions where the application uses them on stored values:
  \<^verbatim>\<open>x || fallback\<close>, the text of a value in a template string, \<^verbatim>\<open>x + 1\<close> and
  \<^verbatim>\<open>x > 0\<close>. Only numbers are ever stored under \<^verbatim>\<open>conversationCount\<close>; the comparison
  of a stored string, array or object with 0 does not occur and is \<open>False\<close> here.
\<close>

definition orElse :: "json option \<Rightarrow> json \<Rightarrow> json" where
  "orElse x fallback = (case x of None \<Rightarrow> fallback | Some v \<Rightarrow> if truthy v then v else fallback)"

fun joinWith :: "string \<Rightarrow> string list \<Rightarrow> string" where
  "joinWith sep [] = []"
| "joinWith sep [x] = x"
| "joinWith sep (x # y # rest) = x @ sep @ joinWith sep (y # rest)"

fun toText :: "json \<Rightarrow> string" where
  "toText JNull = ''null''"
| "toText (JBool b) = (if b then ''true'' else ''false'')"
| "toText (JNum n) = toString n"
| "toText (JStr text) = text"
| "toText (JArr xs) = joinWith '','' (map (\<lambda>x. if x = JNull then [] else toText x) xs)"
| "toText (JObj _) = ''[object Object]''"

fun plus1 :: "json \<Rightarrow> json" where
  "plus1 (JNum n) = JNum (n + 1)"
| "plus1 (JBool b) = JNum (if b then 2 else 1)"
| "plus1 JNull = JNum 1"
| "plus1 v = JStr (toText v @ ''1'')"

fun gt0 :: "json \<Rightarrow> bool" where
  "gt0 (JNum n) = (0 < n)"
| "gt0 (JBool b) = b"
| "gt0 _ = False"

text \<open>
  Sequencing of awaited calls: an error (a rejected promise) ends the caller at once,
  with the effects made so far.
\<close>

definition andThen ::
  "('s \<Rightarrow> (error + 'a) \<times> 's) \<Rightarrow> ('a \<Rightarrow> 's \<Rightarrow> (error + 'b) \<times> 's) \<Rightarrow> 's \<Rightarrow> (error + 'b) \<times> 's" where
  "andThen m f s = (case m s of (Inl e, s') \<Rightarrow> (Inl e, s') | (Inr a, s') \<Rightarrow> f a s')"

text \<open>A call that returns a value, and \<^verbatim>\<open>try { body } catch { handler }\<close>.\<close>

definition succeed :: "'a \<Rightarrow> 's \<Rightarrow> (error + 'a) \<times> 's" where
  "succeed a s = (Inr a, s)"

definition tryCatch ::
  "('s \<Rightarrow> (error + 'a) \<times> 's) \<Rightarrow> ('s \<Rightarrow> (error + 'a) \<times> 's) \<Rightarrow> 's \<Rightarrow> (error + 'a) \<times> 's" where
  "tryCatch body handler s =
     (case body s of (Inl e, s') \<Rightarrow> handler s' | (Inr a, s') \<Rightarrow> (Inr a, s'))"

section \<open>externalDialog: the stream adapter\<close>

text \<open>
  \<^verbatim>\<open>soul/cognitiveSteps/externalDialog.ts\<close>. The options of the step
  (\<^verbatim>\<open>ExternalDialogOptions\<close>); an optional field is an \<open>option\<close>.
\<close>

datatype ModelClass = Quality | Fast | Reasoning

record ExternalDialogOptions =
  ed_instructions :: string
  ed_stream :: "bool option"
  ed_model :: "ModelClass option"
  ed_postProcess :: "(WorkingMemory \<Rightarrow> string \<Rightarrow> Memory list \<times> string) option"

text \<open>
  \<^verbatim>\<open>processStream\<close> is an async generator over the fragments of the Processor's stream.
  A finite stream is the list of its fragments; what the generator does, in order, is a
  list of events: a fragment yielded to the consumer, or a line written to the console
  (after every tenth fragment, and when the stream is complete). The first argument is
  the variable \<^verbatim>\<open>chunkCount\<close>.
\<close>

datatype StreamEvent = Yield string | StreamedChunks nat | StreamComplete nat

fun processStream :: "nat \<Rightarrow> string list \<Rightarrow> StreamEvent list" where
  "processStream chunkCount [] = [StreamComplete chunkCount]"
| "processStream chunkCount (chunk # rest) =
     (let chunkCount = chunkCount + 1 in
        (if chunkCount mod 10 = 0 then [StreamedChunks chunkCount] else [])
        @ Yield chunk # processStream chunkCount rest)"

text \<open>What the consumer of the generator receives: the yielded fragments, in order.\<close>

fun yielded :: "StreamEvent list \<Rightarrow> string list" where
  "yielded [] = []"
| "yielded (Yield chunk # evs) = chunk # yielded evs"
| "yielded (_ # evs) = yielded evs"

text \<open>
  \<^verbatim>\<open>streamProcessor\<close>: defined only when \<^verbatim>\<open>options.stream\<close> is truthy; each call starts
  its own \<^verbatim>\<open>chunkCount\<close> at 0.
\<close>

definition streamProcessor ::
  "ExternalDialogOptions \<Rightarrow> (WorkingMemory \<Rightarrow> string list \<Rightarrow> StreamEvent list) option" where
  "streamProcessor options =
     (if ed_stream options = Some True
      then Some (\<lambda>memory stream. processStream 0 stream)
      else None)"

text \<open>
  Modelled from the spec: the accumulation of a streamed response by the executor
  (\<^verbatim>\<open>createCognitiveStep\<close> of packages/core, not among the sources), section 4.2 step 3:
  the fragments are accumulated, as they arrive, into the full text.
\<close>

definition accumulate :: "string list \<Rightarrow> string" where
  "accumulate fragments = foldl (\<lambda>text fragment. text @ fragment) [] fragments"

section \<open>WorkingMemory.withMemory\<close>

text \<open>
  Modelled from the spec: \<^verbatim>\<open>WorkingMemory.withMemory\<close> of packages/core, which is not among
  the sources. Section 4.1: it gives a new WorkingMemory with the entries appended and
  never mutates the receiver; section 3: the identity (\<^verbatim>\<open>soulName\<close>) is carried forward;
  section 9: a property attached to the object after construction is not on the new object
  and has to be reattached after every fork (the runner's comment says the same:
  "Re-add entityName property after clone").
\<close>

definition withMemory :: "WorkingMemory \<Rightarrow> Memory list \<Rightarrow> WorkingMemory" where
  "withMemory memory entries =
     \<lparr>soulName = soulName memory, memories = memories memory @ entries, entityName = None\<rparr>"

section \<open>Mental processes: the engine as the processes use it\<close>

text \<open>
  The mental processes (\<^verbatim>\<open>src/unnamed/part_001\<close>, \<^verbatim>\<open>src/unnamed/part_002\<close> and
  \<^verbatim>\<open>soul/subprocesses/teachingProcess.ts\<close>) call the cognitive steps, \<^verbatim>\<open>useActions\<close> and
  \<^verbatim>\<open>useSoulMemory\<close>. The processes bind what a call of a step resolves to in three ways:
  whole, into the variable that holds the memory
  (\<^verbatim>\<open>memory = await internalMonologue(memory, ...)\<close>); whole, into a variable that is then
  compared with string literals (\<^verbatim>\<open>const interactionMode = await decision(...)\<close>); and
  destructured as an array
  (\<^verbatim>\<open>const [questionMemory, questionStream] = await externalDialog(...)\<close>). A value in a
  process therefore keeps its JavaScript shape: \<^verbatim>\<open>undefined\<close>, \<^verbatim>\<open>null\<close>, a boolean, a
  number, a string, a WorkingMemory, a stream (the list of its fragments), an array, or a
  plain object (its properties in their order). By section 3 of the specification a step
  resolves to the pair of the new memory and the exposed value, which is the array
  \<open>VArray [newMemory, exposedValue]\<close>.
\<close>

datatype jsval =
    VUndefined
  | VNull
  | VBoolean bool
  | VNumber int
  | VString string
  | VMemory WorkingMemory
  | VStream "string list"
  | VArray "jsval list"
  | VObject "(string \<times> jsval) list"

text \<open>
  \<^verbatim>\<open>const [a, b] = value\<close>: the first two of the elements that iterating the value gives,
  \<^verbatim>\<open>undefined\<close> where there are fewer. An array gives its elements and a string its
  characters. \<^verbatim>\<open>undefined\<close>, \<^verbatim>\<open>null\<close>, a boolean, a number and a plain object are not
  iterable; a WorkingMemory and a stream (an \<^verbatim>\<open>AsyncIterable\<close>) are objects taken to have
  no synchronous iterator: for these the destructuring throws a TypeError.
\<close>

definition element :: "jsval list \<Rightarrow> nat \<Rightarrow> jsval" where
  "element xs i = (if i < length xs then xs ! i else VUndefined)"

fun destructure :: "jsval \<Rightarrow> error + jsval \<times> jsval" where
  "destructure (VArray xs) = Inr (element xs 0, element xs 1)"
| "destructure (VString text) =
     Inr (element (map (\<lambda>c. VString [c]) text) 0, element (map (\<lambda>c. VString [c]) text) 1)"
| "destructure VUndefined = Inl TypeError"
| "destructure VNull = Inl TypeError"
| "destructure (VBoolean b) = Inl TypeError"
| "destructure (VNumber n) = Inl TypeError"
| "destructure (VMemory memory) = Inl TypeError"
| "destructure (VStream fragments) = Inl TypeError"
| "destructure (VObject properties) = Inl TypeError"


text \<open>
  What a step resolves to is decided by the executor of packages/core and by the language
  model behind the Processor, so the steps are parameters of the model: each takes the
  value passed as the working memory, the options object and the state of the outside
  world (\<open>'w\<close>: whatever decides the next response), and returns an error or the value
  that the call resolves to, with the next state of the world. An options object is
  written as a \<open>JObj\<close>; a \<^verbatim>\<open>postProcess\<close> closure in it belongs to the call the parameter
  stands for and is not written out.
\<close>

type_synonym 'w importedStep = "jsval \<Rightarrow> json \<Rightarrow> 'w \<Rightarrow> (error + jsval) \<times> 'w"

record 'w CognitiveSteps =
  internalMonologue :: "'w importedStep"
  mentalQuery :: "'w importedStep"
  perceive :: "'w importedStep"
  reflect :: "'w importedStep"
  brainstorm :: "'w importedStep"
  decision :: "'w importedStep"
  externalDialog :: "'w importedStep"
  toISOString :: "'w \<Rightarrow> string"

text \<open>
  The effects of a running process: \<^verbatim>\<open>speak\<close> puts an action on the bus; the soul memory
  is the key/value map behind \<^verbatim>\<open>useSoulMemory\<close>. The \<^verbatim>\<open>log\<close> action carries a diagnostic
  string and is left out, as is the output on the console, of which only the line that
  opens a round of the learning loop is kept (its two numbers).
\<close>

datatype Action = Speak jsval

datatype ConsoleLine = LearningLoopQuestion int int

record 'w Engine =
  processor :: 'w
  engineSoulMemory :: "string \<rightharpoonup> json"
  actions :: "Action list"
  console :: "ConsoleLine list"

type_synonym ('w, 'a) process = "'w Engine \<Rightarrow> (error + 'a) \<times> 'w Engine"

definition step :: "'w importedStep \<Rightarrow> jsval \<Rightarrow> json \<Rightarrow> ('w, jsval) process" where
  "step f memory options s =
     (case f memory options (processor s) of (r, w) \<Rightarrow> (r, s\<lparr>processor := w\<rparr>))"

text \<open>\<^verbatim>\<open>const [a, b] = await call\<close>.\<close>

definition destructured :: "('w, jsval) process \<Rightarrow> ('w, jsval \<times> jsval) process" where
  "destructured call = andThen call (\<lambda>result s. (destructure result, s))"

definition speak :: "jsval \<Rightarrow> ('w, unit) process" where
  "speak stream s = (Inr (), s\<lparr>actions := actions s @ [Speak stream]\<rparr>)"

definition consoleLog :: "ConsoleLine \<Rightarrow> ('w, unit) process" where
  "consoleLog line s = (Inr (), s\<lparr>console := console s @ [line]\<rparr>)"

text \<open>
  Modelled from the spec: \<^verbatim>\<open>get\<close> and \<^verbatim>\<open>set\<close> of \<^verbatim>\<open>useSoulMemory\<close> (packages/engine, not
  among the sources), section 4.4: \<open>get(key)\<close> gives the value or absent, \<open>set\<close> overwrites.
\<close>

definition get :: "string \<Rightarrow> ('w, json option) process" where
  "get key s = (Inr (engineSoulMemory s key), s)"

definition set_key :: "string \<Rightarrow> json \<Rightarrow> ('w, unit) process" where
  "set_key key v s = (Inr (), s\<lparr>engineSoulMemory := (engineSoulMemory s)(key \<mapsto> v)\<rparr>)"

section \<open>The learning process\<close>

text \<open>
  The learning process (the first part of \<^verbatim>\<open>src/unnamed/part_002\<close>, imported by the initial
  process as \<^verbatim>\<open>./subprocesses/learningProcess.js\<close>).
\<close>

datatype Depth = Surface | Comprehensive | Exhaustive

record LearningParams =
  focusArea :: string
  depth :: Depth

definition maxQuestions :: "LearningParams option \<Rightarrow> int" where
  "maxQuestions params =
     (if map_option depth params = Some Exhaustive then 10
      else if map_option depth params = Some Comprehensive then 5
      else 3)"

text \<open>\<^verbatim>\<open>params?.focusArea || fallback\<close>: the fallback for no params and for the empty string.\<close>

definition focusAreaOr :: "LearningParams option \<Rightarrow> string \<Rightarrow> string" where
  "focusAreaOr params fallback =
     (case params of
        None \<Rightarrow> fallback
      | Some p \<Rightarrow> if focusArea p = [] then fallback else focusArea p)"

text \<open>Steps 2 to 5 of one round of the loop: formulate, ask, perceive the answer, reflect.\<close>

definition questionRound ::
  "'w CognitiveSteps \<Rightarrow> LearningParams option \<Rightarrow> jsval \<Rightarrow> ('w, jsval) process" where
  "questionRound steps params memory =
     andThen (step (mentalQuery steps) memory
       (JObj [(''query'', JStr (''Based on what I know so far, what would be a thoughtful, open-ended question to learn more about ''
                 @ focusAreaOr params ''this person'' @ ''?'')),
              (''verb'', JStr ''formulates'')])) (\<lambda>memory.
     andThen (destructured (step (externalDialog steps) memory
       (JObj [(''instructions'', JStr ''Ask your carefully formulated question in a warm, curious manner. Show genuine interest.''),
              (''stream'', JBool True)]))) (\<lambda>(questionMemory, questionStream).
     andThen (speak questionStream) (\<lambda>_.
     andThen (step (perceive steps) questionMemory
       (JObj [(''stimulus'', JStr ''[User provides their response]''),
              (''type'', JStr ''textual''),
              (''analyzeEmotions'', JBool True)])) (\<lambda>memory.
     step (internalMonologue steps) memory
       (JObj [(''instructions'', JStr ''Scholar reflects on what they just learned. What insights did this reveal? How does this connect to what they already know?''),
              (''verb'', JStr ''processes'')])))))"

text \<open>
  The \<^verbatim>\<open>while (questionsAsked < maxQuestions)\<close> loop, with its variables \<^verbatim>\<open>memory\<close> and
  \<^verbatim>\<open>questionsAsked\<close>; it returns both. \<^verbatim>\<open>break\<close> leaves the loop without the increment.
\<close>

function learningLoop ::
  "'w CognitiveSteps \<Rightarrow> LearningParams option \<Rightarrow> int \<Rightarrow> jsval \<Rightarrow> int
     \<Rightarrow> ('w, jsval \<times> int) process" where
  "learningLoop steps params maxQ memory questionsAsked s =
     (if questionsAsked < maxQ then
        (case andThen (consoleLog (LearningLoopQuestion (questionsAsked + 1) maxQ))
                (\<lambda>_. questionRound steps params memory) s of
           (Inl e, s1) \<Rightarrow> (Inl e, s1)
         | (Inr memory1, s1) \<Rightarrow>
             if questionsAsked < maxQ - 1 then
               (case step (decision steps) memory1
                  (JObj [(''question'', JStr ''Have I learned enough about this topic, or should I ask another question?''),
                         (''choices'', JArr [JStr ''ask_another'', JStr ''synthesize_now''])]) s1 of
                  (Inl e, s2) \<Rightarrow> (Inl e, s2)
                | (Inr continueDecision, s2) \<Rightarrow>
                    if continueDecision = VString ''synthesize_now''
                    then (Inr (memory1, questionsAsked), s2)
                    else learningLoop steps params maxQ memory1 (questionsAsked + 1) s2)
             else learningLoop steps params maxQ memory1 (questionsAsked + 1) s1)
      else (Inr (memory, questionsAsked), s))"
  by pat_completeness auto
termination
  by (relation "measure (\<lambda>(steps, params, maxQ, memory, questionsAsked, s). nat (maxQ - questionsAsked))")
     auto

declare learningLoop.simps [simp del]

text \<open>
  \<^verbatim>\<open>((await get(key)) as any[]) || []\<close> followed by \<^verbatim>\<open>.push(entry)\<close>: an absent or falsy
  stored value starts a new array; a stored array is extended; any other stored value has
  no \<^verbatim>\<open>push\<close>, and the call throws.
\<close>

definition pushOnto :: "json option \<Rightarrow> json \<Rightarrow> ('w, json) process" where
  "pushOnto stored entry s =
     (case stored of
        None \<Rightarrow> (Inr (JArr [entry]), s)
      | Some v \<Rightarrow>
          if \<not> truthy v then (Inr (JArr [entry]), s)
          else (case v of
                  JArr xs \<Rightarrow> (Inr (JArr (xs @ [entry])), s)
                | _ \<Rightarrow> (Inl TypeError, s)))"

fun depthName :: "Depth \<Rightarrow> string" where
  "depthName Surface = ''surface''"
| "depthName Comprehensive = ''comprehensive''"
| "depthName Exhaustive = ''exhaustive''"

text \<open>
  The object pushed onto \<^verbatim>\<open>userLearnings\<close>; a property whose value is \<^verbatim>\<open>undefined\<close> (no
  params) is left out, as it is when the object is serialised.
\<close>

definition learningEntry :: "LearningParams option \<Rightarrow> string \<Rightarrow> int \<Rightarrow> json" where
  "learningEntry params timestamp questionsAsked =
     JObj ((case params of None \<Rightarrow> [] | Some p \<Rightarrow> [(''topic'', JStr (focusArea p))])
           @ [(''timestamp'', JStr timestamp), (''questionsAsked'', JNum questionsAsked)]
           @ (case params of None \<Rightarrow> [] | Some p \<Rightarrow> [(''depth'', JStr (depthName (depth p)))]))"

text \<open>Steps 7 to 9, after the loop: synthesise, store the learning, thank the user.\<close>

definition synthesize ::
  "'w CognitiveSteps \<Rightarrow> LearningParams option \<Rightarrow> jsval \<Rightarrow> int \<Rightarrow> ('w, jsval) process" where
  "synthesize steps params memory questionsAsked =
     andThen (step (mentalQuery steps) memory
       (JObj [(''query'', JStr ''Synthesize everything learned into key insights and understanding.''),
              (''structuredResponse'', JBool True),
              (''modelClass'', JStr ''quality'')])) (\<lambda>memory.
     andThen (get ''userLearnings'') (\<lambda>stored.
     andThen (\<lambda>s. pushOnto stored
                (learningEntry params (toISOString steps (processor s)) questionsAsked) s) (\<lambda>currentLearnings.
     andThen (set_key ''userLearnings'' currentLearnings) (\<lambda>_.
     andThen (destructured (step (externalDialog steps) memory
       (JObj [(''instructions'', JStr ''Thank the user for sharing and provide a thoughtful summary of what you've learned about them. Show how this helps you understand them better.''),
              (''stream'', JBool True)]))) (\<lambda>(finalMemory, finalStream).
     andThen (speak finalStream) (\<lambda>_ s.
     (Inr finalMemory, s)))))))"

definition learningProcess ::
  "'w CognitiveSteps \<Rightarrow> jsval \<Rightarrow> LearningParams option \<Rightarrow> ('w, jsval) process" where
  "learningProcess steps workingMemory params =
     andThen (step (internalMonologue steps) workingMemory
       (JObj [(''instructions'', JStr (''Scholar considers what they want to learn about ''
                 @ focusAreaOr params ''the user''
                 @ ''. What specific aspects would be most valuable to understand?'')),
              (''verb'', JStr ''contemplates'')])) (\<lambda>memory.
     andThen (learningLoop steps params (maxQuestions params) memory 0) (\<lambda>(memory, questionsAsked).
     synthesize steps params memory questionsAsked))"

text \<open>What is counted: the \<^verbatim>\<open>speak\<close> actions on the bus.\<close>

definition speakCount :: "'w Engine \<Rightarrow> nat" where
  "speakCount s = length (actions s)"

text \<open>
  A concrete outside world for running the processes on an example. Every step resolves,
  as section 3 of the specification has it, to the pair of a WorkingMemory and an exposed
  value. The executor of the example reads the memory out of what it is given (the
  WorkingMemory itself, or the first element of a pair) and returns it as it is; the
  decision exposes \<open>label\<close>, \<^verbatim>\<open>externalDialog\<close> a stream of two fragments, and the world
  counts the calls made.
\<close>

fun givenMemory :: "jsval \<Rightarrow> WorkingMemory" where
  "givenMemory (VMemory memory) = memory"
| "givenMemory (VArray (first # rest)) = givenMemory first"
| "givenMemory other = \<lparr>soulName = [], memories = [], entityName = None\<rparr>"

definition resolving :: "jsval \<Rightarrow> nat importedStep" where
  "resolving exposed given options w = (Inr (VArray [VMemory (givenMemory given), exposed]), w + 1)"

definition exampleSteps :: "string \<Rightarrow> nat CognitiveSteps" where
  "exampleSteps label =
     \<lparr>internalMonologue = resolving (VString ''a thought''),
      mentalQuery = resolving (VString ''an answer''),
      perceive = resolving (VString ''a perception''),
      reflect = resolving (VString ''a reflection''),
      brainstorm = resolving (VArray [VString ''an idea'']),
      decision = resolving (VString label),
      externalDialog = resolving (VStream [''Tell me '', ''more'']),
      toISOString = (\<lambda>w. ''2024-01-01T00:00:00.000Z'')\<rparr>"

section \<open>The teaching process\<close>





section \<open>The emotional process\<close>










section \<open>The initial process\<close>



text \<open>The default branch of the switch: the exploration, run in the parent itself.\<close>

definition exploration ::
  "'w CognitiveSteps \<Rightarrow> jsval \<Rightarrow> ('w, jsval) process" where
  "exploration steps workingMemory =
     andThen (step (mentalQuery steps) workingMemory
       (JObj [(''query'', JStr ''What fascinating topics could we explore together? Consider the user's potential interests.''),
              (''verb'', JStr ''brainstorms''),
              (''modelClass'', JStr ''quality'')])) (\<lambda>workingMemory.
     andThen (destructured (step (externalDialog steps) workingMemory
       (JObj [(''instructions'', JStr ''Share your curiosity and suggest some fascinating topics to explore together.''),
              (''stream'', JBool True)]))) (\<lambda>(finalMemory, finalStream).
     andThen (speak finalStream) (\<lambda>_.
     succeed finalMemory)))"



section \<open>The cognitive steps and their executor\<close>

text \<open>
  Modelled from the spec: \<^verbatim>\<open>createCognitiveStep\<close> of packages/core, which is not among the
  sources; section 4.2. The step's configuration holds an optional output schema and the
  post-processing function. The Processor's outcome for the command is an error or the
  resolved response (for a stream, the accumulated text). A response that fails the schema
  fails the step with a ValidationError and nothing is committed; otherwise post-processing
  gives the entries and the exposed value, and the new WorkingMemory is the previous one
  with the entries appended.
\<close>

record ('r, 'v) CognitiveStepConfig =
  schema :: "('r \<Rightarrow> bool) option"
  postProcess :: "WorkingMemory \<Rightarrow> 'r \<Rightarrow> error + Memory list \<times> 'v"

definition createCognitiveStep ::
  "('r, 'v) CognitiveStepConfig \<Rightarrow> WorkingMemory \<Rightarrow> error + 'r \<Rightarrow> error + WorkingMemory \<times> 'v" where
  "createCognitiveStep config memory outcome =
     (case outcome of
        Inl e \<Rightarrow> Inl e
      | Inr response \<Rightarrow>
          if (case schema config of None \<Rightarrow> True | Some valid \<Rightarrow> valid response)
          then (case postProcess config memory response of
                  Inl e \<Rightarrow> Inl e
                | Inr (entries, v) \<Rightarrow> Inr (withMemory memory entries, v))
          else Inl ValidationError)"

text \<open>
  \<^verbatim>\<open>memory.entityName\<close> as a template string shows it: the text \<^verbatim>\<open>undefined\<close> when the
  property is not there.
\<close>

definition readEntityName :: "WorkingMemory \<Rightarrow> string" where
  "readEntityName memory = (case entityName memory of None \<Rightarrow> ''undefined'' | Some name \<Rightarrow> name)"

subsection \<open>internalMonologue\<close>

text \<open>
  \<^verbatim>\<open>soul/cognitiveSteps/internalMonologue.ts\<close>. A custom \<^verbatim>\<open>postProcess\<close> returns the
  memories to add and the value.
\<close>

record InternalMonologueOptions =
  im_instructions :: string
  im_verb :: "string option"
  im_modelClass :: "ModelClass option"
  im_postProcess :: "(WorkingMemory \<Rightarrow> string \<Rightarrow> Memory list \<times> string) option"










subsection \<open>externalDialog\<close>





subsection \<open>decision\<close>

text \<open>
  \<^verbatim>\<open>soul/cognitiveSteps/decision.ts\<close>. The schema is \<^verbatim>\<open>z.enum(options.choices)\<close>: the response
  is one of the choices. \<^verbatim>\<open>indexOf\<close> is the first index of the choice, or -1.
\<close>

record DecisionOptions =
  dc_question :: string
  dc_choices :: "string list"
  dc_context :: "string option"
  dc_postProcess :: "(WorkingMemory \<Rightarrow> string \<Rightarrow> Memory list \<times> string) option"

fun indexOf :: "string list \<Rightarrow> string \<Rightarrow> int" where
  "indexOf [] x = -1"
| "indexOf (y # ys) x =
     (if x = y then 0 else (let i = indexOf ys x in if i < 0 then -1 else i + 1))"

definition decision_postProcess ::
  "DecisionOptions \<Rightarrow> string \<Rightarrow> WorkingMemory \<Rightarrow> string \<Rightarrow> Memory list \<times> string" where
  "decision_postProcess options now memory choice =
     (let decisionMemory =
            \<lparr>role = Assistant,
             content = readEntityName memory @ '' decided: '' @ choice,
             metadata = Some [(''type'', JStr ''decision''),
                              (''question'', JStr (dc_question options)),
                              (''choice'', JStr choice),
                              (''choiceIndex'', JNum (indexOf (dc_choices options) choice)),
                              (''allChoices'', JArr (map JStr (dc_choices options))),
                              (''timestamp'', JStr now)]\<rparr>
      in case dc_postProcess options of
           Some custom \<Rightarrow> custom memory choice
         | None \<Rightarrow> ([decisionMemory], choice))"

definition decision_step ::
  "DecisionOptions \<Rightarrow> string \<Rightarrow> WorkingMemory \<Rightarrow> error + string \<Rightarrow> error + WorkingMemory \<times> string" where
  "decision_step options now =
     createCognitiveStep
       \<lparr>schema = Some (\<lambda>response. response \<in> set (dc_choices options)),
        postProcess = (\<lambda>memory choice. Inr (decision_postProcess options now memory choice))\<rparr>"

text \<open>Options and a memory for the examples.\<close>

definition thinking :: InternalMonologueOptions where
  "thinking = \<lparr>im_instructions = ''Reflect on the user's message and your purpose'',
               im_verb = None, im_modelClass = None, im_postProcess = None\<rparr>"


definition choosing :: DecisionOptions where
  "choosing = \<lparr>dc_question = ''What type of interaction would be most appropriate?'',
               dc_choices = [''learning'', ''teaching''],
               dc_context = None, dc_postProcess = None\<rparr>"

text \<open>
  A caller's \<^verbatim>\<open>postProcess\<close> for the decision that returns a label of its own, whatever
  the choice; and a memory whose entity name is no regular expression, with an engine
  that rejects it.
\<close>

definition overriding :: DecisionOptions where
  "overriding = \<lparr>dc_question = ''What type of interaction would be most appropriate?'',
                 dc_choices = [''learning'', ''teaching''],
                 dc_context = None,
                 dc_postProcess =
                   Some (\<lambda>memory choice.
                     ([\<lparr>role = Assistant, content = ''Let us dance'', metadata = None\<rparr>],
                      ''dancing''))\<rparr>"



definition scholarMemory :: WorkingMemory where
  "scholarMemory = \<lparr>soulName = ''Scholar'', memories = [systemMemory ''You are Scholar''],
                    entityName = Some ''Scholar''\<rparr>"

section \<open>SimpleWorkingMemory of the standalone demo\<close>

text \<open>
  \<^verbatim>\<open>src/soul-learning-app/src/standalone-demo.ts\<close>. The class has one field,
  \<^verbatim>\<open>memories\<close>, which refers to an array. The constructor stores the array it is given,
  the reference and not a copy; \<^verbatim>\<open>addMemory\<close> pushes onto that array and returns
  \<^verbatim>\<open>this\<close>. Arrays and objects therefore live in a heap: \<open>arrays\<close> holds the content of
  every array by its address, and \<open>objects\<close> holds, for every \<^verbatim>\<open>SimpleWorkingMemory\<close> by its
  address, the address of the array that its field refers to. Objects constructed from
  the same array share it.
\<close>

record Heap =
  arrays :: "Memory list list"
  objects :: "nat list"

text \<open>An array literal allocates a new array.\<close>

definition newArray :: "Heap \<Rightarrow> Memory list \<Rightarrow> Heap \<times> nat" where
  "newArray h elements = (h\<lparr>arrays := arrays h @ [elements]\<rparr>, length (arrays h))"

text \<open>
  \<^verbatim>\<open>new SimpleWorkingMemory(initialMemories)\<close>: the field initialiser
  \<^verbatim>\<open>memories: any[] = []\<close> allocates an empty array, and the assignment in the
  constructor replaces the reference to it by the one given.
\<close>

definition newSimpleWorkingMemory :: "Heap \<Rightarrow> nat \<Rightarrow> Heap \<times> nat" where
  "newSimpleWorkingMemory h initialMemories =
     (h\<lparr>arrays := arrays h @ [[]], objects := objects h @ [initialMemories]\<rparr>,
      length (objects h))"

text \<open>
  \<^verbatim>\<open>this.memories\<close>, and \<^verbatim>\<open>addMemory\<close>. A call on an address that is no object of the
  heap, or on an object whose field is no array of the heap, is not a state of a
  JavaScript program; the model returns \<open>None\<close>.
\<close>

definition memoriesOf :: "Heap \<Rightarrow> nat \<Rightarrow> Memory list" where
  "memoriesOf h this = arrays h ! (objects h ! this)"

definition addMemory :: "Heap \<Rightarrow> nat \<Rightarrow> Memory \<Rightarrow> (Heap \<times> nat) option" where
  "addMemory h this memory =
     (if this < length (objects h) \<and> objects h ! this < length (arrays h)
      then Some (h\<lparr>arrays := (arrays h)[objects h ! this := memoriesOf h this @ [memory]]\<rparr>, this)
      else None)"

text \<open>
  The heap after the constructor of \<^verbatim>\<open>StandaloneSoul\<close>: the array literal with the
  blueprint as its one system entry, at address 0, and the \<^verbatim>\<open>SimpleWorkingMemory\<close>
  constructed from it, at address 0 of the objects. And a heap in which a second
  \<^verbatim>\<open>SimpleWorkingMemory\<close> has been constructed from the same array.
\<close>

definition soulHeap :: Heap where
  "soulHeap =
     (let (h, blueprint) = newArray \<lparr>arrays = [], objects = []\<rparr> [systemMemory ''You are Scholar'']
      in fst (newSimpleWorkingMemory h blueprint))"

definition sharedHeap :: Heap where
  "sharedHeap = fst (newSimpleWorkingMemory soulHeap 0)"

text \<open>The files of an empty directory, for the examples.\<close>

definition noFiles :: "string \<Rightarrow> json File" where
  "noFiles path = Absent"

section \<open>LocalSoulRunner\<close>

text \<open>
  \<^verbatim>\<open>src/local-soul-runner.ts\<close>, and the class of the same name in the second part of
  \<^verbatim>\<open>src/direct-demo.ts\<close>. The two classes have the same fields, but for the store of
  facts: \<^verbatim>\<open>soulMemoryStore\<close>, written through to a file, in the first;
  \<^verbatim>\<open>soulMemory\<close>, in memory only, in the second. The methods \<^verbatim>\<open>processMessage\<close>,
  \<^verbatim>\<open>ensureEntityName\<close> and the body of \<^verbatim>\<open>initialize\<close> have the same text in both.

  A cognitive step is a function imported at run time. It is called with the working
  memory and an options object and its result is destructured as
  \<^verbatim>\<open>[newMemory, value]\<close>; what it answers is decided by the language model, so it is a
  parameter as above. The record holds the fields of the object and, after them, the
  world the object acts on: the state of the language model, the files by path, whether
  writing a file fails, the events emitted, and the names of the steps called so far.
  Output on the console is not part of the state.
\<close>

datatype Event = Speaks json

record 'w LocalSoulRunner =
  workingMemory :: WorkingMemory
  runnerSoulName :: string
  cognitiveSteps :: "string \<rightharpoonup> ('w, WorkingMemory \<times> json) cognitiveStep"
  isProcessing :: bool
  soulMemoryStore :: "string \<rightharpoonup> json"
  soulMemory :: "string \<rightharpoonup> json"
  llm :: 'w
  disk :: "string \<Rightarrow> json File"
  readOnly :: bool
  emitted :: "Event list"
  calls :: "string list"

type_synonym ('w, 'a) runnerMethod = "'w LocalSoulRunner \<Rightarrow> (error + 'a) \<times> 'w LocalSoulRunner"

text \<open>
  The constructor's \<^verbatim>\<open>memoryFilePath\<close>: the file
  \<^verbatim>\<open>.soul-memories/<soul name in lower case>-memory.json\<close>.
\<close>

definition memoryFilePath :: "'w LocalSoulRunner \<Rightarrow> string" where
  "memoryFilePath r = ''.soul-memories/'' @ map toLowerCase (runnerSoulName r) @ ''-memory.json''"

text \<open>
  \<^verbatim>\<open>loadMemoriesFromFile\<close>: every entry of the parsed object is set in the store. A missing
  file leaves the store as it is; so does a file that \<^verbatim>\<open>JSON.parse\<close> rejects (the error is
  caught and logged).
\<close>

definition loadMemoriesFromFile :: "'w LocalSoulRunner \<Rightarrow> 'w LocalSoulRunner" where
  "loadMemoriesFromFile r =
     (case disk r (memoryFilePath r) of
        Holds parsed \<Rightarrow> r\<lparr>soulMemoryStore := soulMemoryStore r ++ parsed\<rparr>
      | Absent \<Rightarrow> r
      | Corrupt \<Rightarrow> r)"

text \<open>
  \<^verbatim>\<open>saveMemoriesToFile\<close> copies the store into a plain object with
  \<^verbatim>\<open>memories[key] = value\<close> and writes its JSON text. On a plain object the assignment to
  the key \<^verbatim>\<open>__proto__\<close> calls the prototype setter and creates no own property, so that
  key is not in what \<^verbatim>\<open>JSON.stringify\<close> writes. The file's content is modelled as
  the object written (\<^verbatim>\<open>JSON.parse\<close> gives back what \<^verbatim>\<open>JSON.stringify\<close> wrote, for
  JSON-compatible values). When \<^verbatim>\<open>writeFileSync\<close> throws, the error is caught and logged,
  the file stays as it was, and the method returns normally.
\<close>

definition plainObject :: "(string \<rightharpoonup> json) \<Rightarrow> (string \<rightharpoonup> json)" where
  "plainObject store = (\<lambda>key. if key = ''__proto__'' then None else store key)"

definition saveMemoriesToFile :: "'w LocalSoulRunner \<Rightarrow> 'w LocalSoulRunner" where
  "saveMemoriesToFile r =
     (if readOnly r then r
      else r\<lparr>disk := (disk r)(memoryFilePath r := Holds (plainObject (soulMemoryStore r)))\<rparr>)"

text \<open>\<^verbatim>\<open>getSoulMemoryInterface\<close>: \<^verbatim>\<open>get\<close> and \<^verbatim>\<open>set\<close> (\<open>None\<close> is \<^verbatim>\<open>undefined\<close>).\<close>

definition store_get :: "string \<Rightarrow> ('w, json option) runnerMethod" where
  "store_get key r = (Inr (soulMemoryStore r key), r)"

definition store_set :: "string \<Rightarrow> json \<Rightarrow> ('w, unit) runnerMethod" where
  "store_set key v r =
     (Inr (), saveMemoriesToFile (r\<lparr>soulMemoryStore := (soulMemoryStore r)(key \<mapsto> v)\<rparr>))"

text \<open>
  The constructor: a new object for the soul name, in the given world, with an empty store
  into which the file is loaded. \<^verbatim>\<open>workingMemory\<close> is declared with \<^verbatim>\<open>!\<close> and assigned by
  \<^verbatim>\<open>initialize\<close>; until then the model holds an empty memory in its place.
\<close>

definition newLocalSoulRunner ::
  "string \<Rightarrow> 'w \<Rightarrow> (string \<Rightarrow> json File) \<Rightarrow> bool \<Rightarrow> 'w LocalSoulRunner" where
  "newLocalSoulRunner name w files ro =
     loadMemoriesFromFile
       \<lparr>workingMemory = \<lparr>soulName = name, memories = [], entityName = None\<rparr>,
        runnerSoulName = name,
        cognitiveSteps = Map.empty,
        isProcessing = False,
        soulMemoryStore = Map.empty,
        soulMemory = Map.empty,
        llm = w, disk = files, readOnly = ro, emitted = [], calls = []\<rparr>"

text \<open>A restart of the process: the object is gone, the world stays.\<close>

definition restart :: "'w LocalSoulRunner \<Rightarrow> 'w LocalSoulRunner" where
  "restart r = newLocalSoulRunner (runnerSoulName r) (llm r) (disk r) (readOnly r)"

text \<open>
  \<^verbatim>\<open>ensureEntityName\<close>: when the working memory has no own property \<^verbatim>\<open>entityName\<close>, one is
  defined whose getter returns the runner's \<^verbatim>\<open>soulName\<close>.
\<close>

definition ensureEntityName :: "'w LocalSoulRunner \<Rightarrow> 'w LocalSoulRunner" where
  "ensureEntityName r =
     (if entityName (workingMemory r) = None
      then r\<lparr>workingMemory := (workingMemory r)\<lparr>entityName := Some (runnerSoulName r)\<rparr>\<rparr>
      else r)"

text \<open>
  \<^verbatim>\<open>initialize\<close>: the blueprint is read from the soul's file (\<open>None\<close>: reading throws, and
  the error is thrown on); the working memory is constructed with the two system
  memories, \<^verbatim>\<open>entityName\<close> is attached, and the cognitive steps that the import yields are
  stored (a failed import is logged and yields none). The second system memory is the one
  of \<^verbatim>\<open>local-soul-runner.ts\<close>.
\<close>

definition initialize ::
  "string option \<Rightarrow> (string \<rightharpoonup> ('w, WorkingMemory \<times> json) cognitiveStep) \<Rightarrow> ('w, unit) runnerMethod" where
  "initialize blueprintFile steps r =
     (case blueprintFile of
        None \<Rightarrow> (Inl IOError, r)
      | Some blueprint \<Rightarrow>
          (Inr (),
           r\<lparr>workingMemory :=
                \<lparr>soulName = runnerSoulName r,
                 memories =
                   [\<lparr>role = System, content = blueprint, metadata = None\<rparr>,
                    \<lparr>role = System,
                     content = ''You are running locally. Engage naturally with the user.'',
                     metadata = None\<rparr>],
                 entityName = Some (runnerSoulName r)\<rparr>,
              cognitiveSteps := steps\<rparr>))"

text \<open>
  \<^verbatim>\<open>processMessage\<close>, over the class's own \<^verbatim>\<open>runCognitiveProcess\<close>. When the runner is busy
  the method returns at once. Otherwise the flag is set, the user's message is appended,
  \<^verbatim>\<open>entityName\<close> is reattached and the cognitive process runs; an error thrown in the
  \<^verbatim>\<open>try\<close> block is caught and logged, and \<^verbatim>\<open>finally\<close> clears the flag.
\<close>

definition processMessage :: "('w, unit) runnerMethod \<Rightarrow> string \<Rightarrow> ('w, unit) runnerMethod" where
  "processMessage runCognitiveProcess message r =
     (if isProcessing r then (Inr (), r)
      else
        (let r1 = r\<lparr>isProcessing := True\<rparr>;
             r2 = ensureEntityName
                    (r1\<lparr>workingMemory :=
                          withMemory (workingMemory r1)
                            [\<lparr>role = User, content = message, metadata = None\<rparr>]\<rparr>);
             (outcome, r3) = runCognitiveProcess r2
         in (Inr (), r3\<lparr>isProcessing := False\<rparr>)))"

section \<open>The cognitive process of the runner in direct-demo.ts\<close>

text \<open>
  A call of a loaded step, as every call site writes it:
  \<^verbatim>\<open>const [newMemory, value] = await step(this.workingMemory, options);
  this.workingMemory = newMemory; this.ensureEntityName();\<close>
  A name that is not loaded gives \<^verbatim>\<open>undefined\<close>, and calling it throws.
\<close>

definition has :: "string \<Rightarrow> 'w LocalSoulRunner \<Rightarrow> bool" where
  "has name r = (cognitiveSteps r name \<noteq> None)"

definition callStep :: "string \<Rightarrow> json \<Rightarrow> ('w, json) runnerMethod" where
  "callStep name options r =
     (case cognitiveSteps r name of
        None \<Rightarrow> (Inl TypeError, r)
      | Some f \<Rightarrow>
          (case f (workingMemory r) options (llm r) of
             (Inl e, w) \<Rightarrow> (Inl e, r\<lparr>llm := w, calls := calls r @ [name]\<rparr>)
           | (Inr (newMemory, v), w) \<Rightarrow>
               (Inr v, ensureEntityName
                  (r\<lparr>llm := w, calls := calls r @ [name], workingMemory := newMemory\<rparr>))))"

text \<open>\<^verbatim>\<open>if (this.cognitiveSteps.has(name)) { ... the call above ... }\<close>, the value unused.\<close>

definition ifLoaded :: "string \<Rightarrow> json \<Rightarrow> ('w, unit) runnerMethod" where
  "ifLoaded name options r =
     (if has name r then andThen (callStep name options) (\<lambda>_. succeed ()) r else (Inr (), r))"

definition emitSpeaks :: "json \<Rightarrow> ('w, unit) runnerMethod" where
  "emitSpeaks response r = (Inr (), r\<lparr>emitted := emitted r @ [Speaks response]\<rparr>)"

definition getSoulMemory :: "'w LocalSoulRunner \<Rightarrow> string \<Rightarrow> json option" where
  "getSoulMemory r key = soulMemory r key"

definition setSoulMemory :: "string \<Rightarrow> json \<Rightarrow> ('w, unit) runnerMethod" where
  "setSoulMemory key v r = (Inr (), r\<lparr>soulMemory := (soulMemory r)(key \<mapsto> v)\<rparr>)"

definition lastUserMessage :: "WorkingMemory \<Rightarrow> Memory option" where
  "lastUserMessage memory =
     (case rev (filter (\<lambda>m. role m = User) (memories memory)) of
        [] \<Rightarrow> None
      | m # _ \<Rightarrow> Some m)"

text \<open>
  \<^verbatim>\<open>userMessages.match(/my name is (\w+)|i'm (\w+)|call me (\w+)/i)\<close> and the name it
  captures: at the leftmost position where one of the three alternatives matches, the
  first that does; \<^verbatim>\<open>\w+\<close> is the longest run of word characters, at least one.
  \<^verbatim>\<open>includes\<close> is the substring test (\<open>includes_str\<close>).
\<close>

definition isWordChar :: "char \<Rightarrow> bool" where
  "isWordChar c =
     (let n = (of_char c :: nat)
      in (48 \<le> n \<and> n \<le> 57) \<or> (65 \<le> n \<and> n \<le> 90) \<or> (97 \<le> n \<and> n \<le> 122) \<or> n = 95)"

definition wordAfter :: "string \<Rightarrow> string \<Rightarrow> string option" where
  "wordAfter literal text =
     (if map toLowerCase (take (length literal) text) = literal
      then (case takeWhile isWordChar (drop (length literal) text) of
              [] \<Rightarrow> None
            | w # ord \<Rightarrow> Some (w # ord))
      else None)"

definition nameAt :: "string \<Rightarrow> string option" where
  "nameAt text =
     (case wordAfter ''my name is '' text of
        Some name \<Rightarrow> Some name
      | None \<Rightarrow>
          (case wordAfter ''i'm '' text of
             Some name \<Rightarrow> Some name
           | None \<Rightarrow> wordAfter ''call me '' text))"

fun matchName :: "string \<Rightarrow> string option" where
  "matchName [] = None"
| "matchName (c # cs) =
     (case nameAt (c # cs) of Some name \<Rightarrow> Some name | None \<Rightarrow> matchName cs)"

fun includes_str :: "string \<Rightarrow> string \<Rightarrow> bool" where
  "includes_str [] part = (part = [])"
| "includes_str (c # cs) part = (take (length part) (c # cs) = part \<or> includes_str cs part)"

text \<open>Phase 1: \<^verbatim>\<open>perceptionPhase\<close>.\<close>

definition perceptionPhase :: "('w, unit) runnerMethod" where
  "perceptionPhase =
     andThen
       (\<lambda>r. if has ''perceive'' r then
               (case lastUserMessage (workingMemory r) of
                  None \<Rightarrow> (Inr (), r)
                | Some m \<Rightarrow>
                    andThen
                      (callStep ''perceive''
                         (JObj [(''stimulus'', JStr (content m)),
                                (''type'', JStr ''message''),
                                (''depth'', JStr ''comprehensive'')]))
                      (\<lambda>perception. succeed ()) r)
             else (Inr (), r))
       (\<lambda>_. ifLoaded ''internalMonologue''
          (JObj [(''instructions'', JStr ''Reflect deeply on the user's message. Consider their emotional state, intent, and what they might truly need. Be philosophical and empathetic.''),
                 (''verb'', JStr ''contemplates''),
                 (''modelClass'', JStr ''quality'')]))"

text \<open>Phase 2: \<^verbatim>\<open>memoryPhase\<close>.\<close>

definition memoryPhase :: "('w, unit) runnerMethod" where
  "memoryPhase r =
     (let userName = getSoulMemory r ''userName'';
          conversationCount = orElse (getSoulMemory r ''conversationCount'') (JNum 0)
      in andThen
           (\<lambda>r. if (case userName of None \<Rightarrow> False | Some v \<Rightarrow> truthy v) \<or> gt0 conversationCount
                 then ifLoaded ''mentalQuery''
                        (JObj [(''query'', JStr (''I remember ''
                                  @ toText (orElse userName (JStr ''this person''))
                                  @ ''. What did we discuss before? What are their interests and learning style?'')),
                               (''verb'', JStr ''recalls''),
                               (''modelClass'', JStr ''quality'')]) r
                 else (Inr (), r))
           (\<lambda>_. setSoulMemory ''conversationCount'' (plus1 conversationCount)) r)"

text \<open>Phase 3: \<^verbatim>\<open>decisionPhase\<close>, with its fallback when no decision step is loaded.\<close>

definition decisionPhase :: "('w, json) runnerMethod" where
  "decisionPhase r =
     (if has ''decision'' r then
        callStep ''decision''
          (JObj [(''question'', JStr ''Based on the user's message and our conversation history, what type of interaction would be most helpful?''),
                 (''choices'', JArr [JStr ''learning'', JStr ''teaching'', JStr ''exploring'',
                                      JStr ''emotional_support'', JStr ''brainstorming''])]) r
      else (Inr (JStr ''exploring''), r))"

text \<open>\<^verbatim>\<open>handleCognitiveError\<close>: the fallback reply is emitted and committed.\<close>

definition fallbackResponse :: string where
  "fallbackResponse = ''I apologize, but I'm having trouble processing right now. Could you please rephrase your message? I'm here to help and learn with you.''"

definition handleCognitiveError :: "('w, unit) runnerMethod" where
  "handleCognitiveError r =
     (Inr (), ensureEntityName
        (r\<lparr>emitted := emitted r @ [Speaks (JStr fallbackResponse)],
           workingMemory :=
             withMemory (workingMemory r)
               [\<lparr>role = Assistant, content = fallbackResponse, metadata = None\<rparr>]\<rparr>))"

text \<open>\<^verbatim>\<open>generateResponse\<close>, with its own \<^verbatim>\<open>try\<close>/\<^verbatim>\<open>catch\<close>.\<close>

definition generateResponse :: "string \<Rightarrow> ('w, unit) runnerMethod" where
  "generateResponse instructions r =
     (if has ''externalDialog'' r then
        tryCatch
          (andThen
             (callStep ''externalDialog''
                (JObj [(''instructions'', JStr instructions),
                       (''stream'', JBool False),
                       (''model'', JStr ''quality'')]))
             (\<lambda>response. emitSpeaks response))
          handleCognitiveError r
      else (Inr (), r))"

text \<open>Phase 4: the five subprocesses and \<^verbatim>\<open>subprocessPhase\<close>.\<close>

definition learningSubprocess :: "('w, unit) runnerMethod" where
  "learningSubprocess =
     andThen
       (ifLoaded ''mentalQuery''
          (JObj [(''query'', JStr ''What can I learn about this user? What are their interests, communication style, personality traits, and preferences? What questions should I ask to understand them better?''),
                 (''verb'', JStr ''investigates''),
                 (''modelClass'', JStr ''quality'')]))
       (\<lambda>_. generateResponse ''Focus on learning about the user. Ask thoughtful questions about their interests, background, preferences, and goals. Show genuine curiosity and listen actively to understand them better.'')"

definition teachingSubprocess :: "('w, unit) runnerMethod" where
  "teachingSubprocess =
     andThen
       (ifLoaded ''mentalQuery''
          (JObj [(''query'', JStr ''What teaching approach would work best for this user? How can I break down complex concepts clearly?''),
                 (''verb'', JStr ''strategizes''),
                 (''modelClass'', JStr ''quality'')]))
       (\<lambda>_. generateResponse ''Focus on teaching effectively. Use clear explanations, provide examples, check for understanding, and adapt your teaching style to their needs.'')"

definition emotionalSupportSubprocess :: "('w, unit) runnerMethod" where
  "emotionalSupportSubprocess =
     andThen
       (ifLoaded ''internalMonologue''
          (JObj [(''instructions'', JStr ''Feel deeply for the user's emotional state. Consider what they truly need right now - validation, comfort, encouragement, or just someone to listen.''),
                 (''verb'', JStr ''empathizes''),
                 (''modelClass'', JStr ''quality'')]))
       (\<lambda>_. generateResponse ''Provide emotional support. Be empathetic, validating, and encouraging. Listen actively and offer comfort without judgment.'')"

definition brainstormingSubprocess :: "('w, unit) runnerMethod" where
  "brainstormingSubprocess =
     andThen
       (ifLoaded ''brainstorm''
          (JObj [(''topic'', JStr ''creative solutions and innovative ideas for the user's interests''),
                 (''approach'', JStr ''creative''),
                 (''quantity'', JNum 5)]))
       (\<lambda>_. generateResponse ''Engage in creative brainstorming. Think outside the box, suggest innovative ideas, and encourage creative thinking together.'')"

definition explorationSubprocess :: "('w, unit) runnerMethod" where
  "explorationSubprocess =
     andThen
       (ifLoaded ''mentalQuery''
          (JObj [(''query'', JStr ''What fascinating topics could we explore together? What might spark interesting conversation?''),
                 (''verb'', JStr ''wonders''),
                 (''modelClass'', JStr ''quality'')]))
       (\<lambda>_. generateResponse ''Engage in curious exploration. Ask thoughtful questions, share interesting insights, and guide the conversation toward fascinating topics.'')"

definition subprocessPhase :: "json \<Rightarrow> ('w, unit) runnerMethod" where
  "subprocessPhase interactionMode =
     (if interactionMode = JStr ''learning'' then learningSubprocess
      else if interactionMode = JStr ''teaching'' then teachingSubprocess
      else if interactionMode = JStr ''emotional_support'' then emotionalSupportSubprocess
      else if interactionMode = JStr ''brainstorming'' then brainstormingSubprocess
      else explorationSubprocess)"

text \<open>Phase 5: \<^verbatim>\<open>reflectionPhase\<close> and \<^verbatim>\<open>extractAndStoreUserInfo\<close>.\<close>

definition extractAndStoreUserInfo :: "('w, unit) runnerMethod" where
  "extractAndStoreUserInfo r =
     (let userMessages =
            joinWith '' '' (map content (filter (\<lambda>m. role m = User) (memories (workingMemory r))))
      in andThen
           (\<lambda>r. case matchName userMessages of
                   Some name \<Rightarrow> setSoulMemory ''userName'' (JStr name) r
                 | None \<Rightarrow> (Inr (), r))
           (\<lambda>_ r.
              (let interests = orElse (getSoulMemory r ''userInterests'') (JArr [])
               in if includes_str userMessages ''love'' \<or> includes_str userMessages ''interested''
                  then (case interests of
                          JArr xs \<Rightarrow>
                            setSoulMemory ''userInterests''
                              (JArr (xs @ [JStr ''general_conversation''])) r
                        | _ \<Rightarrow> (Inl TypeError, r))
                  else (Inr (), r))) r)"

definition reflectionPhase :: "('w, unit) runnerMethod" where
  "reflectionPhase =
     andThen
       (ifLoaded ''reflect''
          (JObj [(''topic'', JStr ''this conversation and what I've learned about the user''),
                 (''depth'', JStr ''deep''),
                 (''focus'', JStr ''learning'')]))
       (\<lambda>_. extractAndStoreUserInfo)"

text \<open>
  \<^verbatim>\<open>runCognitiveProcess\<close> (direct-demo.ts): the five phases in a \<^verbatim>\<open>try\<close> block, whose
  \<^verbatim>\<open>catch\<close> calls \<^verbatim>\<open>handleCognitiveError\<close>.
\<close>

definition runCognitiveProcess :: "('w, unit) runnerMethod" where
  "runCognitiveProcess =
     tryCatch
       (andThen perceptionPhase (\<lambda>_.
        andThen memoryPhase (\<lambda>_.
        andThen decisionPhase (\<lambda>interactionMode.
        andThen (subprocessPhase interactionMode) (\<lambda>_.
        reflectionPhase)))))
       handleCognitiveError"

text \<open>
  A runner for the examples: Scholar, initialised, with the user's message appended, whose
  \<^verbatim>\<open>perceive\<close> step fails while every other step would succeed; and the same runner while
  it is busy.
\<close>

definition answering :: "(nat, WorkingMemory \<times> json) cognitiveStep" where
  "answering memory options w = (Inr (memory, JStr ''teaching''), w + 1)"

definition failing :: "(nat, WorkingMemory \<times> json) cognitiveStep" where
  "failing memory options w = (Inl ProcessorError, w + 1)"

definition loadedSteps :: "string \<rightharpoonup> (nat, WorkingMemory \<times> json) cognitiveStep" where
  "loadedSteps name =
     (if name = ''perceive'' then Some failing
      else if name \<in> {''internalMonologue'', ''mentalQuery'', ''decision'', ''externalDialog'',
                         ''brainstorm'', ''reflect''}
      then Some answering
      else None)"

definition scholarRunner :: "nat LocalSoulRunner" where
  "scholarRunner =
     \<lparr>workingMemory =
        \<lparr>soulName = ''Scholar'',
         memories = [systemMemory ''You are Scholar'', userMemory ''Hello''],
         entityName = Some ''Scholar''\<rparr>,
      runnerSoulName = ''Scholar'',
      cognitiveSteps = loadedSteps,
      isProcessing = False,
      soulMemoryStore = Map.empty,
      soulMemory = Map.empty,
      llm = 0, disk = noFiles, readOnly = False, emitted = [], calls = []\<rparr>"

definition busyRunner :: "nat LocalSoulRunner" where
  "busyRunner = scholarRunner\<lparr>isProcessing := True\<rparr>"

section \<open>Properties of the stream adapter\<close>

lemma yielded_append: "yielded (xs @ ys) = yielded xs @ yielded ys"
  by (induction xs rule: yielded.induct) simp_all

lemma yielded_processStream: "yielded (processStream n fragments) = fragments"
  by (induction fragments arbitrary: n) (simp_all add: Let_def)

lemma foldl_append_concat: "foldl (\<lambda>text fragment. text @ fragment) acc xs = acc @ concat xs"
  by (induction xs arbitrary: acc) simp_all

lemma accumulate_concat: "accumulate fragments = concat fragments"
  by (simp add: accumulate_def foldl_append_concat)

text \<open>
  C7. When streaming is requested, the step has a stream adapter, and for every finite
  sequence of fragments the adapter yields exactly these fragments in their order;
  the text accumulated from what it yields is their concatenation.
\<close>

theorem streamProcessor_passthrough:
  assumes "ed_stream options = Some True"
  shows "\<exists>adapter. streamProcessor options = Some adapter
           \<and> yielded (adapter memory fragments) = fragments
           \<and> accumulate (yielded (adapter memory fragments)) = concat fragments"
  using assms by (simp add: streamProcessor_def yielded_processStream accumulate_concat)

theorem streamProcessor_passthrough_witness:
  "\<exists>adapter.
      streamProcessor \<lparr>ed_instructions = ''Greet'', ed_stream = Some True,
                       ed_model = None, ed_postProcess = None\<rparr> = Some adapter
    \<and> yielded (adapter \<lparr>soulName = ''Scholar'', memories = [], entityName = None\<rparr>
                  [''Hi '', ''there'']) = [''Hi '', ''there'']
    \<and> accumulate (yielded (adapter \<lparr>soulName = ''Scholar'', memories = [], entityName = None\<rparr>
                  [''Hi '', ''there''])) = ''Hi there''"
  using streamProcessor_passthrough
    [of "\<lparr>ed_instructions = ''Greet'', ed_stream = Some True,
          ed_model = None, ed_postProcess = None\<rparr>"
        "\<lparr>soulName = ''Scholar'', memories = [], entityName = None\<rparr>"
        "[''Hi '', ''there'']"]
  by simp

section \<open>Properties of the learning process\<close>

lemma step_frame:
  "step f memory options s = (r, s') \<Longrightarrow>
     console s' = console s \<and> actions s' = actions s
     \<and> engineSoulMemory s' = engineSoulMemory s"
  by (auto simp: step_def split: prod.splits)

lemma destructured_frame:
  "destructured (step f memory options) s = (r, s') \<Longrightarrow>
     console s' = console s \<and> actions s' = actions s
     \<and> engineSoulMemory s' = engineSoulMemory s"
  by (auto simp: destructured_def andThen_def split: prod.splits sum.splits dest!: step_frame)

lemma questionRound_frame:
  "questionRound steps params memory s = (r, s') \<Longrightarrow>
     console s' = console s \<and> speakCount s' \<le> speakCount s + 1"
  unfolding questionRound_def andThen_def speak_def speakCount_def
  by (auto split: prod.splits sum.splits dest!: step_frame destructured_frame)

lemma round_frame:
  assumes "andThen (consoleLog line) (\<lambda>_. questionRound steps params memory) s = (r, s')"
  shows "length (console s') = length (console s) + 1 \<and> speakCount s' \<le> speakCount s + 1"
proof -
  from assms have "questionRound steps params memory (s\<lparr>console := console s @ [line]\<rparr>) = (r, s')"
    by (simp add: andThen_def consoleLog_def)
  from questionRound_frame [OF this] show ?thesis
    by (simp add: speakCount_def)
qed

text \<open>
  The loop, started with \<^verbatim>\<open>questionsAsked = q\<close>, opens at most \<open>maxQ - q\<close> rounds and speaks
  at most as many questions; the counter it returns lies between \<open>q\<close> and \<open>maxQ\<close>.
\<close>

lemma learningLoop_bound:
  "learningLoop steps params maxQ memory q s = (r, s') \<Longrightarrow>
     length (console s') \<le> length (console s) + nat (maxQ - q)
   \<and> speakCount s' \<le> speakCount s + nat (maxQ - q)
   \<and> (\<forall>m q'. r = Inr (m, q') \<longrightarrow> q \<le> q' \<and> q' \<le> max q maxQ)"
proof (induction steps params maxQ memory q s arbitrary: r s' rule: learningLoop.induct)
  case (1 steps params maxQ memory questionsAsked s)
  let ?line = "LearningLoopQuestion (questionsAsked + 1) maxQ"
  let ?ask = "JObj [(''question'', JStr ''Have I learned enough about this topic, or should I ask another question?''),
                    (''choices'', JArr [JStr ''ask_another'', JStr ''synthesize_now''])]"
  note unfolded = "1.prems" [unfolded learningLoop.simps [of steps params maxQ memory questionsAsked s]]
  show ?case
  proof (cases "questionsAsked < maxQ")
    case False
    with unfolded show ?thesis by auto
  next
    case True
    obtain x y where xy:
      "andThen (consoleLog ?line) (\<lambda>_. questionRound steps params memory) s = (x, y)"
      by (cases "andThen (consoleLog ?line) (\<lambda>_. questionRound steps params memory) s")
    note fr = round_frame [OF xy]
    show ?thesis
    proof (cases x)
      case (Inl e)
      with unfolded True xy have "r = Inl e" "s' = y" by simp_all
      with fr True show ?thesis by auto
    next
      case (Inr b)
      show ?thesis
      proof (cases "questionsAsked < maxQ - 1")
        case False
        with unfolded True xy Inr
        have run: "learningLoop steps params maxQ b (questionsAsked + 1) y = (r, s')" by simp
        from "1.IH"(2) [OF True xy [symmetric] Inr False run] fr True
        show ?thesis by auto
      next
        case more: True
        obtain xa ya where d: "step (decision steps) b ?ask y = (xa, ya)"
          by (cases "step (decision steps) b ?ask y")
        from step_frame [OF d] have fd: "console ya = console y" "speakCount ya = speakCount y"
          by (simp_all add: speakCount_def)
        show ?thesis
        proof (cases xa)
          case (Inl e)
          with unfolded True xy Inr more d have "r = Inl e" "s' = ya" by simp_all
          with fr fd True show ?thesis by auto
        next
          case choice: (Inr ba)
          show ?thesis
          proof (cases "ba = VString ''synthesize_now''")
            case True
            with unfolded \<open>questionsAsked < maxQ\<close> xy Inr more d choice
            have "r = Inr (b, questionsAsked)" "console s' = console ya" "speakCount s' = speakCount ya"
              by auto
            with fr fd \<open>questionsAsked < maxQ\<close> show ?thesis by auto
          next
            case False
            with unfolded \<open>questionsAsked < maxQ\<close> xy Inr more d choice
            have run: "learningLoop steps params maxQ b (questionsAsked + 1) ya = (r, s')" by simp
            from "1.IH"(1) [OF \<open>questionsAsked < maxQ\<close> xy [symmetric] Inr more d [symmetric] choice False run]
              fr fd \<open>questionsAsked < maxQ\<close>
            show ?thesis by auto
          qed
        qed
      qed
    qed
  qed
qed

lemma synthesize_frame:
  "synthesize steps params memory q s = (r, s') \<Longrightarrow>
     console s' = console s \<and> speakCount s' \<le> speakCount s + 1"
  unfolding synthesize_def andThen_def speak_def get_def set_key_def pushOnto_def speakCount_def
  by (auto split: prod.splits sum.splits option.splits if_splits json.splits
      dest!: step_frame destructured_frame)

lemma maxQuestions_cases:
  "maxQuestions params =
     (case params of
        None \<Rightarrow> 3
      | Some p \<Rightarrow> (case depth p of Exhaustive \<Rightarrow> 10 | Comprehensive \<Rightarrow> 5 | Surface \<Rightarrow> 3))"
  by (simp add: maxQuestions_def split: option.splits Depth.splits)

text \<open>
  C10. The learning process is a total function of its inputs and of the outside
  world: the loop is defined by recursion on \<open>maxQuestions - questionsAsked\<close>, which
  every round that continues decreases. Whatever the steps answer, a run opens at most
  \<open>maxQuestions\<close> rounds of the loop and speaks at most \<open>maxQuestions\<close> questions (and
  the closing summary), where \<open>maxQuestions\<close> is 10 for the depth "exhaustive", 5 for
  "comprehensive" and 3 otherwise.
\<close>

theorem learningProcess_question_bound:
  "length (console (snd (learningProcess steps memory0 params s)))
      \<le> length (console s) + nat (maxQuestions params)
   \<and> speakCount (snd (learningProcess steps memory0 params s))
      \<le> speakCount s + nat (maxQuestions params) + 1
   \<and> maxQuestions params =
       (case params of
          None \<Rightarrow> 3
        | Some p \<Rightarrow> (case depth p of Exhaustive \<Rightarrow> 10 | Comprehensive \<Rightarrow> 5 | Surface \<Rightarrow> 3))"
proof -
  let ?first = "step (internalMonologue steps) memory0
       (JObj [(''instructions'', JStr (''Scholar considers what they want to learn about ''
                 @ focusAreaOr params ''the user''
                 @ ''. What specific aspects would be most valuable to understand?'')),
              (''verb'', JStr ''contemplates'')])"
  obtain r1 s1 where first: "?first s = (r1, s1)" by (cases "?first s")
  note f1 = step_frame [OF first]
  have bound: "length (console (snd (learningProcess steps memory0 params s)))
      \<le> length (console s) + nat (maxQuestions params)
   \<and> speakCount (snd (learningProcess steps memory0 params s))
      \<le> speakCount s + nat (maxQuestions params) + 1"
  proof (cases r1)
    case (Inl e)
    with first have "learningProcess steps memory0 params s = (Inl e, s1)"
      by (simp add: learningProcess_def andThen_def)
    with f1 show ?thesis by (simp add: speakCount_def)
  next
    case (Inr memory)
    obtain r2 s2 where loop: "learningLoop steps params (maxQuestions params) memory 0 s1 = (r2, s2)"
      by (cases "learningLoop steps params (maxQuestions params) memory 0 s1")
    note f2 = learningLoop_bound [OF loop]
    show ?thesis
    proof (cases r2)
      case (Inl e)
      with first Inr loop have "learningProcess steps memory0 params s = (Inl e, s2)"
        by (simp add: learningProcess_def andThen_def)
      with f1 f2 show ?thesis by (simp add: speakCount_def)
    next
      case looped: (Inr mq)
      obtain r3 s3 where syn: "synthesize steps params (fst mq) (snd mq) s2 = (r3, s3)"
        by (cases "synthesize steps params (fst mq) (snd mq) s2")
      with first Inr loop looped have "learningProcess steps memory0 params s = (r3, s3)"
        by (simp add: learningProcess_def andThen_def case_prod_beta)
      with f1 f2 synthesize_frame [OF syn] show ?thesis by (simp add: speakCount_def)
    qed
  qed
  with maxQuestions_cases show ?thesis by blast
qed

text \<open>
  The bound is reached: with depth "comprehensive" and a decision that always answers
  "ask_another", the loop runs its five rounds, and the run ends normally.
\<close>

lemma learningProcess_comprehensive_run:
  "console (snd (learningProcess (exampleSteps ''ask_another'')
      (VMemory \<lparr>soulName = ''Scholar'', memories = [], entityName = None\<rparr>)
      (Some \<lparr>focusArea = ''user_interests'', depth = Comprehensive\<rparr>)
      \<lparr>processor = 0, engineSoulMemory = Map.empty, actions = [], console = []\<rparr>))
   = [LearningLoopQuestion 1 5, LearningLoopQuestion 2 5, LearningLoopQuestion 3 5,
      LearningLoopQuestion 4 5, LearningLoopQuestion 5 5]"
  by (simp add: learningProcess_def andThen_def step_def exampleSteps_def maxQuestions_def
      questionRound_def speak_def consoleLog_def synthesize_def get_def set_key_def pushOnto_def
      destructured_def element_def resolving_def learningLoop.simps)

section \<open>Properties of addMemory\<close>




text \<open>
  What the call leaves alone and what it does not: every array other than the one the
  receiver refers to keeps its content, and an object that shares the receiver's array
  has the new entry in its own entry list, as the second object of \<open>sharedHeap\<close> has.
\<close>

lemma addMemory_other_arrays:
  "addMemory h this memory = Some (h1, result) \<Longrightarrow>
     length (arrays h1) = length (arrays h)
     \<and> (\<forall>address. address \<noteq> objects h ! this \<longrightarrow> arrays h1 ! address = arrays h ! address)"
  by (auto simp: addMemory_def split: if_splits)

lemma addMemory_shared_array:
  "addMemory h this memory = Some (h1, result) \<Longrightarrow> objects h ! other = objects h ! this
     \<Longrightarrow> memoriesOf h1 other = memoriesOf h this @ [memory]"
  by (auto simp: addMemory_def memoriesOf_def split: if_splits)

lemma addMemory_shared_example:
  "memoriesOf sharedHeap 1 = [systemMemory ''You are Scholar'']
   \<and> map_option (\<lambda>(h, result). memoriesOf h 1) (addMemory sharedHeap 0 (userMemory ''a''))
     = Some [systemMemory ''You are Scholar'', userMemory ''a'']"
  by (simp add: addMemory_def memoriesOf_def sharedHeap_def soulHeap_def newArray_def
      newSimpleWorkingMemory_def)

section \<open>Properties of the soul memory store\<close>

lemma restart_store:
  "soulMemoryStore (restart r) =
     (case disk r (memoryFilePath r) of
        Holds parsed \<Rightarrow> parsed
      | Absent \<Rightarrow> Map.empty
      | Corrupt \<Rightarrow> Map.empty)"
  by (simp add: restart_def newLocalSoulRunner_def loadMemoriesFromFile_def memoryFilePath_def
      split: File.splits)

text \<open>
  C6, as stated, fails when the write fails: \<^verbatim>\<open>set("userName", "Ada")\<close> on a runner whose
  file cannot be written returns normally, and after a restart \<^verbatim>\<open>get("userName")\<close> is
  \<^verbatim>\<open>undefined\<close>.
\<close>

theorem store_set_write_failure_counterexample:
  "fst (store_set ''userName'' (JStr ''Ada'') (newLocalSoulRunner ''Scholar'' () noFiles True))
     = Inr ()
   \<and> fst (store_get ''userName''
          (restart (snd (store_set ''userName'' (JStr ''Ada'')
             (newLocalSoulRunner ''Scholar'' () noFiles True))))) = Inr None"
  by (simp add: store_get_def store_set_def saveMemoriesToFile_def restart_store memoryFilePath_def
      newLocalSoulRunner_def loadMemoriesFromFile_def noFiles_def)

text \<open>
  C6, amended. \<^verbatim>\<open>set(k, v)\<close> followed by \<^verbatim>\<open>get(k)\<close> returns v, and \<^verbatim>\<open>set\<close> always
  returns normally. When the file can be written, \<^verbatim>\<open>set\<close> has written the store to the
  file before it returns, and for a key other than \<^verbatim>\<open>__proto__\<close> a restart (a new runner
  that loads the file) gives a store in which \<^verbatim>\<open>get(k)\<close> returns v.
\<close>

theorem store_set_get_roundtrip:
  "fst (store_get k (snd (store_set k v r))) = Inr (Some v)
   \<and> fst (store_set k v r) = Inr ()
   \<and> (\<not> readOnly r \<longrightarrow>
        disk (snd (store_set k v r)) (memoryFilePath r)
          = Holds (plainObject ((soulMemoryStore r)(k \<mapsto> v))))
   \<and> (\<not> readOnly r \<and> k \<noteq> ''__proto__'' \<longrightarrow>
        fst (store_get k (restart (snd (store_set k v r)))) = Inr (Some v))"
  by (simp add: store_get_def store_set_def saveMemoriesToFile_def restart_store
      memoryFilePath_def plainObject_def)

theorem store_set_get_roundtrip_witness:
  "fst (store_get ''userName''
          (restart (snd (store_set ''userName'' (JStr ''Ada'')
             (newLocalSoulRunner ''Scholar'' () noFiles False))))) = Inr (Some (JStr ''Ada''))"
proof -
  have "\<not> readOnly (newLocalSoulRunner ''Scholar'' () noFiles False)"
    by (simp add: newLocalSoulRunner_def loadMemoriesFromFile_def noFiles_def)
  with store_set_get_roundtrip
    [of "''userName''" "JStr ''Ada''" "newLocalSoulRunner ''Scholar'' () noFiles False"]
  show ?thesis by simp
qed

text \<open>
  The key \<^verbatim>\<open>__proto__\<close> is the one key that a successful write does not persist.
\<close>

lemma store_set_proto_key_lost:
  "fst (store_get ''__proto__''
          (restart (snd (store_set ''__proto__'' (JStr ''Ada'')
             (newLocalSoulRunner ''Scholar'' () noFiles False))))) = Inr None"
  by (simp add: store_get_def store_set_def saveMemoriesToFile_def restart_store memoryFilePath_def
      newLocalSoulRunner_def loadMemoriesFromFile_def noFiles_def plainObject_def)

section \<open>Properties of the identity of a working memory\<close>

text \<open>
  C8, as stated, fails for \<^verbatim>\<open>entityName\<close>: the working memory that \<^verbatim>\<open>withMemory\<close> returns
  for a memory with \<^verbatim>\<open>entityName\<close> attached has no \<^verbatim>\<open>entityName\<close>.
\<close>

theorem withMemory_drops_entityName_counterexample:
  "entityName (withMemory \<lparr>soulName = ''Scholar'', memories = [], entityName = Some ''Scholar''\<rparr>
                 [userMemory ''Hello'']) = None"
  by (simp add: withMemory_def)

text \<open>
  C8, amended. \<^verbatim>\<open>withMemory\<close> carries \<^verbatim>\<open>soulName\<close> forward and appends the entries; the
  \<^verbatim>\<open>entityName\<close> that \<^verbatim>\<open>initialize\<close> attaches (equal to the runner's \<^verbatim>\<open>soulName\<close>, as is
  the \<^verbatim>\<open>soulName\<close> of the memory it constructs) is not on the result, and it is the
  runner's \<^verbatim>\<open>ensureEntityName\<close>, called after the transformation, that attaches it again
  with the runner's \<^verbatim>\<open>soulName\<close>.
\<close>

theorem identity_reattached:
  "soulName (withMemory memory entries) = soulName memory
   \<and> memories (withMemory memory entries) = memories memory @ entries
   \<and> entityName (withMemory memory entries) = None
   \<and> entityName (workingMemory (ensureEntityName
         (r\<lparr>workingMemory := withMemory (workingMemory r) entries\<rparr>))) = Some (runnerSoulName r)
   \<and> entityName (workingMemory (snd (initialize (Some blueprint) steps r))) = Some (runnerSoulName r)
   \<and> soulName (workingMemory (snd (initialize (Some blueprint) steps r))) = runnerSoulName r"
  by (simp add: withMemory_def ensureEntityName_def initialize_def)

section \<open>Properties of the cognitive process\<close>

text \<open>
  What a call of a step, and each of the two phases before the decision, may add to the
  list of steps called; none of them emits an event.
\<close>

lemma callStep_frame:
  "callStep name options r = (x, r') \<Longrightarrow>
     (calls r' = calls r \<or> calls r' = calls r @ [name]) \<and> emitted r' = emitted r"
  by (auto simp: callStep_def ensureEntityName_def split: option.splits prod.splits sum.splits if_splits)

lemma ifLoaded_frame:
  "ifLoaded name options r = (x, r') \<Longrightarrow>
     (\<exists>pre. calls r' = calls r @ pre \<and> set pre \<subseteq> {name}) \<and> emitted r' = emitted r"
  by (auto simp: ifLoaded_def andThen_def succeed_def split: if_splits prod.splits sum.splits
      dest!: callStep_frame)

lemma perceptionPhase_frame:
  assumes "perceptionPhase r = (x, r')"
  shows "(\<exists>pre. calls r' = calls r @ pre \<and> set pre \<subseteq> {''perceive'', ''internalMonologue''})
         \<and> emitted r' = emitted r"
proof -
  let ?first = "\<lambda>r. if has ''perceive'' r then
               (case lastUserMessage (workingMemory r) of
                  None \<Rightarrow> (Inr (), r)
                | Some m \<Rightarrow>
                    andThen
                      (callStep ''perceive''
                         (JObj [(''stimulus'', JStr (content m)),
                                (''type'', JStr ''message''),
                                (''depth'', JStr ''comprehensive'')]))
                      (\<lambda>perception. succeed ()) r)
             else (Inr (), r)"
  obtain x1 r1 where first: "?first r = (x1, r1)" by (cases "?first r")
  then have f1: "(calls r1 = calls r \<or> calls r1 = calls r @ [''perceive'']) \<and> emitted r1 = emitted r"
    by (auto simp: andThen_def succeed_def split: if_splits option.splits prod.splits sum.splits
        dest!: callStep_frame)
  show ?thesis
  proof (cases x1)
    case (Inl e)
    with assms first have "r' = r1" by (simp add: perceptionPhase_def andThen_def)
    with f1 show ?thesis by auto
  next
    case (Inr u)
    with assms first obtain o2 where "ifLoaded ''internalMonologue'' o2 r1 = (x, r')"
      by (simp add: perceptionPhase_def andThen_def)
    from ifLoaded_frame [OF this] f1 show ?thesis by auto
  qed
qed

lemma memoryPhase_frame:
  assumes "memoryPhase r = (x, r')"
  shows "(\<exists>pre. calls r' = calls r @ pre \<and> set pre \<subseteq> {''mentalQuery''}) \<and> emitted r' = emitted r"
  using assms
  by (auto simp: memoryPhase_def Let_def andThen_def setSoulMemory_def
      split: if_splits prod.splits sum.splits dest!: ifLoaded_frame)

lemma preDecision_frame:
  assumes "andThen perceptionPhase (\<lambda>_. memoryPhase) r = (x, r')"
  shows "(\<exists>pre. calls r' = calls r @ pre
            \<and> set pre \<subseteq> {''perceive'', ''internalMonologue'', ''mentalQuery''})
         \<and> emitted r' = emitted r"
proof -
  obtain x1 r1 where p: "perceptionPhase r = (x1, r1)" by (cases "perceptionPhase r")
  note f1 = perceptionPhase_frame [OF p]
  show ?thesis
  proof (cases x1)
    case (Inl e)
    with assms p have "r' = r1" by (simp add: andThen_def)
    with f1 show ?thesis by auto
  next
    case (Inr u)
    with assms p have "memoryPhase r1 = (x, r')" by (simp add: andThen_def)
    from memoryPhase_frame [OF this] f1 show ?thesis by auto
  qed
qed

text \<open>
  C5, amended. When a step of the chain before the decision (the perception phase, then
  the memory phase) fails, \<^verbatim>\<open>runCognitiveProcess\<close> runs neither the decision step nor any
  subprocess nor the reflection: the steps called are among \<^verbatim>\<open>perceive\<close>,
  \<^verbatim>\<open>internalMonologue\<close> and \<^verbatim>\<open>mentalQuery\<close>. The failure does not reach the caller: it
  is caught in \<^verbatim>\<open>runCognitiveProcess\<close>, whose handler emits the fixed fallback reply and
  commits it as an assistant-role entry to the working memory as it was when the step
  failed; the method then returns normally.
\<close>

theorem runCognitiveProcess_consumes_failure:
  assumes "andThen perceptionPhase (\<lambda>_. memoryPhase) r = (Inl e, r1)"
  shows "runCognitiveProcess r = handleCognitiveError r1
       \<and> fst (runCognitiveProcess r) = Inr ()
       \<and> (\<exists>pre. calls (snd (runCognitiveProcess r)) = calls r @ pre
              \<and> set pre \<subseteq> {''perceive'', ''internalMonologue'', ''mentalQuery''})
       \<and> emitted (snd (runCognitiveProcess r)) = emitted r @ [Speaks (JStr fallbackResponse)]
       \<and> memories (workingMemory (snd (runCognitiveProcess r)))
           = memories (workingMemory r1)
             @ [\<lparr>role = Assistant, content = fallbackResponse, metadata = None\<rparr>]"
proof -
  have body: "andThen perceptionPhase (\<lambda>_.
        andThen memoryPhase (\<lambda>_.
        andThen decisionPhase (\<lambda>interactionMode.
        andThen (subprocessPhase interactionMode) (\<lambda>_.
        reflectionPhase)))) r = (Inl e, r1)"
    using assms by (auto simp: andThen_def split: prod.splits sum.splits)
  then have run: "runCognitiveProcess r = handleCognitiveError r1"
    by (simp add: runCognitiveProcess_def tryCatch_def)
  from preDecision_frame [OF assms] run show ?thesis
    by (auto simp: handleCognitiveError_def ensureEntityName_def withMemory_def)
qed

theorem runCognitiveProcess_consumes_failure_witness:
  "runCognitiveProcess scholarRunner
     = handleCognitiveError (scholarRunner\<lparr>llm := 1, calls := [''perceive'']\<rparr>)
   \<and> calls (snd (runCognitiveProcess scholarRunner)) = [''perceive'']
   \<and> emitted (snd (runCognitiveProcess scholarRunner)) = [Speaks (JStr fallbackResponse)]"
proof -
  have pre: "andThen perceptionPhase (\<lambda>_. memoryPhase) scholarRunner
      = (Inl ProcessorError, scholarRunner\<lparr>llm := 1, calls := [''perceive'']\<rparr>)"
    by (simp add: andThen_def perceptionPhase_def scholarRunner_def has_def loadedSteps_def
      lastUserMessage_def systemMemory_def userMemory_def callStep_def failing_def)
  from runCognitiveProcess_consumes_failure [OF pre]
  have run: "runCognitiveProcess scholarRunner
     = handleCognitiveError (scholarRunner\<lparr>llm := 1, calls := [''perceive'']\<rparr>)"
    by (rule conjunct1)
  show ?thesis
    unfolding run
    by (simp add: handleCognitiveError_def ensureEntityName_def scholarRunner_def withMemory_def)
qed

text \<open>
  C5, as stated, fails in its last part: with a \<^verbatim>\<open>perceive\<close> step that fails with a
  ProcessorError, the perception phase fails with that error, but
  \<^verbatim>\<open>runCognitiveProcess\<close> returns normally, and so does \<^verbatim>\<open>processMessage\<close>: the host
  is given no error.
\<close>

theorem runCognitiveProcess_failure_counterexample:
  "fst (perceptionPhase scholarRunner) = Inl ProcessorError
   \<and> fst (runCognitiveProcess scholarRunner) = Inr ()
   \<and> fst (processMessage runCognitiveProcess ''Hello'' scholarRunner) = Inr ()"
  by (simp add: andThen_def perceptionPhase_def scholarRunner_def has_def loadedSteps_def
      lastUserMessage_def systemMemory_def userMemory_def callStep_def failing_def
      runCognitiveProcess_def tryCatch_def handleCognitiveError_def processMessage_def
      ensureEntityName_def withMemory_def Let_def split: prod.splits)

section \<open>Properties of processMessage\<close>

text \<open>
  C9, amended. When \<^verbatim>\<open>processMessage\<close> is called while the runner is busy, the call is
  dropped: it returns normally at once, and the runner (its working memory, its flag, its
  stores, the events emitted) is exactly as before. No call of \<^verbatim>\<open>processMessage\<close> ends
  in an error, whatever the cognitive process does.
\<close>

theorem processMessage_busy_returns:
  "(isProcessing r \<longrightarrow> processMessage run message r = (Inr (), r))
   \<and> fst (processMessage run message r) = Inr ()"
  by (simp add: processMessage_def Let_def split: prod.splits)

theorem processMessage_busy_returns_witness:
  "processMessage runCognitiveProcess ''Are you there?'' busyRunner = (Inr (), busyRunner)"
  using processMessage_busy_returns [of busyRunner runCognitiveProcess "''Are you there?''"]
  by (simp add: busyRunner_def)

text \<open>
  C9, as stated, fails: the call on the busy runner does not end in a ReentrancyError.
\<close>

theorem processMessage_no_ReentrancyError_counterexample:
  "isProcessing busyRunner
   \<and> fst (processMessage runCognitiveProcess ''Are you there?'' busyRunner) \<noteq> Inl ReentrancyError"
  by (simp add: processMessage_def busyRunner_def)

section \<open>Properties of the cognitive steps\<close>




text \<open>
  C2, as stated, fails when the caller supplies a \<^verbatim>\<open>postProcess\<close>: the step returns what
  that function returns and does not check it. With the choices "learning" and
  "teaching", the response "learning" and a \<^verbatim>\<open>postProcess\<close> that answers "dancing", the
  exposed value is "dancing", which is not in the choice list.
\<close>

theorem decision_custom_postProcess_counterexample:
  "dc_choices overriding = [''learning'', ''teaching'']
   \<and> decision_step overriding ''2024-01-01T00:00:00.000Z'' scholarMemory (Inr ''learning'')
     = Inr (withMemory scholarMemory
              [\<lparr>role = Assistant, content = ''Let us dance'', metadata = None\<rparr>],
            ''dancing'')
   \<and> ''dancing'' \<notin> set (dc_choices overriding)"
  by (simp add: decision_step_def createCognitiveStep_def decision_postProcess_def overriding_def)

text \<open>
  C2, amended. A response outside the choice list makes the step fail with a
  ValidationError, whatever the options: no memory and no value is exposed. A response
  that is one of the choices passes the schema; with no custom \<^verbatim>\<open>postProcess\<close> it is the
  exposed value, and one assistant-role entry that names it is appended; with a custom
  \<^verbatim>\<open>postProcess\<close> the entries and the exposed value are the ones that function returns
  for the choice.
\<close>

theorem decision_exposed_value:
  "(response \<notin> set (dc_choices options) \<longrightarrow>
      decision_step options now memory (Inr response) = Inl ValidationError)
   \<and> (dc_postProcess options = None \<and> response \<in> set (dc_choices options) \<longrightarrow>
        decision_step options now memory (Inr response)
          = Inr (withMemory memory
                   [\<lparr>role = Assistant,
                     content = readEntityName memory @ '' decided: '' @ response,
                     metadata = Some [(''type'', JStr ''decision''),
                                      (''question'', JStr (dc_question options)),
                                      (''choice'', JStr response),
                                      (''choiceIndex'', JNum (indexOf (dc_choices options) response)),
                                      (''allChoices'', JArr (map JStr (dc_choices options))),
                                      (''timestamp'', JStr now)]\<rparr>],
                 response))
   \<and> (dc_postProcess options = Some custom \<and> response \<in> set (dc_choices options) \<longrightarrow>
        decision_step options now memory (Inr response)
          = Inr (withMemory memory (fst (custom memory response)), snd (custom memory response)))"
  by (simp add: decision_step_def createCognitiveStep_def decision_postProcess_def
      split: prod.splits)

theorem decision_exposed_value_witness:
  "decision_step choosing ''2024-01-01T00:00:00.000Z'' scholarMemory (Inr ''learning'')
     = Inr (withMemory scholarMemory
              [\<lparr>role = Assistant, content = ''Scholar decided: learning'',
                metadata = Some [(''type'', JStr ''decision''),
                                 (''question'', JStr ''What type of interaction would be most appropriate?''),
                                 (''choice'', JStr ''learning''),
                                 (''choiceIndex'', JNum 0),
                                 (''allChoices'', JArr [JStr ''learning'', JStr ''teaching'']),
                                 (''timestamp'', JStr ''2024-01-01T00:00:00.000Z'')]\<rparr>],
            ''learning'')
   \<and> decision_step choosing ''2024-01-01T00:00:00.000Z'' scholarMemory (Inr ''dancing'')
     = Inl ValidationError
   \<and> decision_step overriding ''2024-01-01T00:00:00.000Z'' scholarMemory (Inr ''dancing'')
     = Inl ValidationError
   \<and> decision_step overriding ''2024-01-01T00:00:00.000Z'' scholarMemory (Inr ''teaching'')
     = Inr (withMemory scholarMemory
              [\<lparr>role = Assistant, content = ''Let us dance'', metadata = None\<rparr>],
            ''dancing'')"
proof -
  let ?custom = "\<lambda>(memory :: WorkingMemory) (choice :: string).
                   ([\<lparr>role = Assistant, content = ''Let us dance'', metadata = None\<rparr>],
                    ''dancing'')"
  have custom: "dc_postProcess overriding = Some ?custom"
    by (simp add: overriding_def)
  from decision_exposed_value [of "''learning''" choosing "''2024-01-01T00:00:00.000Z''" scholarMemory]
       decision_exposed_value [of "''dancing''" choosing "''2024-01-01T00:00:00.000Z''" scholarMemory]
  have plain: "decision_step choosing ''2024-01-01T00:00:00.000Z'' scholarMemory (Inr ''learning'')
     = Inr (withMemory scholarMemory
              [\<lparr>role = Assistant, content = ''Scholar decided: learning'',
                metadata = Some [(''type'', JStr ''decision''),
                                 (''question'', JStr ''What type of interaction would be most appropriate?''),
                                 (''choice'', JStr ''learning''),
                                 (''choiceIndex'', JNum 0),
                                 (''allChoices'', JArr [JStr ''learning'', JStr ''teaching'']),
                                 (''timestamp'', JStr ''2024-01-01T00:00:00.000Z'')]\<rparr>],
            ''learning'')
   \<and> decision_step choosing ''2024-01-01T00:00:00.000Z'' scholarMemory (Inr ''dancing'')
     = Inl ValidationError"
    by (simp add: choosing_def readEntityName_def scholarMemory_def)
  from decision_exposed_value [of "''dancing''" overriding "''2024-01-01T00:00:00.000Z''" scholarMemory]
  have outside: "decision_step overriding ''2024-01-01T00:00:00.000Z'' scholarMemory (Inr ''dancing'')
     = Inl ValidationError"
    by (simp add: overriding_def)
  from decision_exposed_value
    [of "''teaching''" overriding "''2024-01-01T00:00:00.000Z''" scholarMemory ?custom] custom
  have inside: "decision_step overriding ''2024-01-01T00:00:00.000Z'' scholarMemory (Inr ''teaching'')
     = Inr (withMemory scholarMemory
              [\<lparr>role = Assistant, content = ''Let us dance'', metadata = None\<rparr>],
            ''dancing'')"
    by (simp add: overriding_def)
  from plain outside inside show ?thesis by simp
qed

section \<open>Properties of the initial process\<close>





end
